theory Spec2Isabelle
  imports Complex_Main
begin

section \<open>JavaScript values, errors and completions\<close>

text \<open>
  The script \<^verbatim>\<open>static/js/dashboard.js\<close> fetches one JSON payload and hands its fields to
  the charting library. It never computes with the numbers, so a number is carried as a
  \<^typ>\<open>real\<close> and only ever copied.
\<close>

datatype js_error = TypeError string | SyntaxError string | OtherError string

datatype jsval =
    JUndefined
  | JNull
  | JBool bool
  | JNum real
  | JStr string
  | JArr "jsval list"
  | JObj "(string \<times> jsval) list"

text \<open>How a statement or a call ends: normally, or by throwing.\<close>

datatype completion = Normal | Throw js_error

text \<open>
  The property read \<^verbatim>\<open>data.k\<close>. Reading a property of \<^verbatim>\<open>null\<close> or \<^verbatim>\<open>undefined\<close> throws a
  TypeError; an object yields the value stored under the key, or \<^verbatim>\<open>undefined\<close> when the
  key is absent; every other value (number, boolean, string, array) has no property of
  the names this script reads, so the read yields \<^verbatim>\<open>undefined\<close>. The first binding of a
  key in the list is the property's value.
\<close>

fun getProp :: "jsval \<Rightarrow> string \<Rightarrow> js_error + jsval" where
  "getProp JUndefined k = Inl (TypeError ''Cannot read properties of undefined'')"
| "getProp JNull k = Inl (TypeError ''Cannot read properties of null'')"
| "getProp (JObj kvs) k = Inr (case map_of kvs k of Some v \<Rightarrow> v | None \<Rightarrow> JUndefined)"
| "getProp (JBool b) k = Inr JUndefined"
| "getProp (JNum n) k = Inr JUndefined"
| "getProp (JStr s) k = Inr JUndefined"
| "getProp (JArr xs) k = Inr JUndefined"

section \<open>The page: drawing surfaces\<close>

text \<open>
  \<^verbatim>\<open>document.getElementById(id)\<close> yields the element or \<^verbatim>\<open>null\<close>. Calling
  \<^verbatim>\<open>.getContext('2d')\<close> on \<^verbatim>\<open>null\<close> throws, on an element that is not a canvas throws
  as well (the method is missing), and on a canvas yields its context, which may itself be
  \<^verbatim>\<open>null\<close> (\<open>None\<close>).
\<close>

type_synonym ctx2d = "nat option"

datatype element = Canvas ctx2d | OtherElement

type_synonym document = "string \<Rightarrow> element option"

definition getElementById :: "document \<Rightarrow> string \<Rightarrow> element option" where
  "getElementById doc ident = doc ident"

fun getContext :: "element option \<Rightarrow> js_error + ctx2d" where
  "getContext None = Inl (TypeError ''Cannot read properties of null (reading getContext)'')"
| "getContext (Some OtherElement) = Inl (TypeError ''getContext is not a function'')"
| "getContext (Some (Canvas c)) = Inr c"

section \<open>The argument of the chart constructor\<close>

text \<open>The object literals of lines 13--44 and 50--70, field by field.\<close>

record axis =
  ax_beginAtZero :: bool

record scales =
  sc_y :: axis

record chart_options =
  opt_scales :: scales

record dataset =
  ds_label :: "string option"
  ds_data :: "jsval list"
  ds_backgroundColor :: "string list"
  ds_borderColor :: "string list"
  ds_borderWidth :: nat

record chart_data =
  cd_labels :: "string list"
  cd_datasets :: "dataset list"

record chart_config =
  cfg_type :: string
  cfg_data :: chart_data
  cfg_options :: "chart_options option"

section \<open>The world: what the script does to its surroundings\<close>

text \<open>
  The calls the script makes are recorded in a trace. The charting library and
  \<^verbatim>\<open>fetch\<close> are not part of the repository; they are parameters. The library's
  constructor gets the context and the configuration, may change the library's own state
  \<open>'w\<close> and may throw.
\<close>

datatype event =
    FetchCall string
  | ResponseJsonCall
  | UpdateActivityChartCall jsval
  | UpdateResponseChartCall jsval
  | NewChart ctx2d chart_config

record 'w world =
  trace :: "event list"
  lib :: 'w

type_synonym 'w chart_lib = "ctx2d \<Rightarrow> chart_config \<Rightarrow> 'w \<Rightarrow> completion \<times> 'w"

definition emit :: "event \<Rightarrow> 'w world \<Rightarrow> 'w world" where
  "emit ev w = w\<lparr>trace := trace w @ [ev]\<rparr>"

text \<open>\<^verbatim>\<open>new Chart(ctx, cfg)\<close>: the invocation is recorded, then the library runs.\<close>

definition newChart :: "'w chart_lib \<Rightarrow> ctx2d \<Rightarrow> chart_config \<Rightarrow> 'w world \<Rightarrow> completion \<times> 'w world" where
  "newChart Chart ctx cfg w =
     (case Chart ctx cfg (lib w) of
        (c, l) \<Rightarrow> (c, (emit (NewChart ctx cfg) w)\<lparr>lib := l\<rparr>))"

section \<open>The two render functions\<close>

text \<open>
  The configuration literal of \<^verbatim>\<open>updateActivityChart\<close>. Its three property reads happen in
  source order while the literal is evaluated, before the constructor is entered.
\<close>

definition activityConfig :: "jsval \<Rightarrow> js_error + chart_config" where
  "activityConfig d =
     (case getProp d ''post_count'' of Inl e \<Rightarrow> Inl e | Inr p \<Rightarrow>
     (case getProp d ''reply_count'' of Inl e \<Rightarrow> Inl e | Inr r \<Rightarrow>
     (case getProp d ''mention_count'' of Inl e \<Rightarrow> Inl e | Inr m \<Rightarrow>
        Inr \<lparr> cfg_type = ''bar'',
              cfg_data = \<lparr>
                cd_labels = [''Posts'', ''Replies'', ''Mentions''],
                cd_datasets = [\<lparr>
                  ds_label = Some ''Count'',
                  ds_data = [p, r, m],
                  ds_backgroundColor = [
                    ''rgba(75, 192, 192, 0.2)'',
                    ''rgba(54, 162, 235, 0.2)'',
                    ''rgba(153, 102, 255, 0.2)''],
                  ds_borderColor = [
                    ''rgba(75, 192, 192, 1)'',
                    ''rgba(54, 162, 235, 1)'',
                    ''rgba(153, 102, 255, 1)''],
                  ds_borderWidth = 1 \<rparr>] \<rparr>,
              cfg_options = Some \<lparr> opt_scales = \<lparr> sc_y = \<lparr> ax_beginAtZero = True \<rparr> \<rparr> \<rparr> \<rparr>)))"

definition updateActivityChart :: "'w chart_lib \<Rightarrow> document \<Rightarrow> jsval \<Rightarrow> 'w world \<Rightarrow> completion \<times> 'w world" where
  "updateActivityChart Chart doc d w =
     (let w0 = emit (UpdateActivityChartCall d) w in
      (case getContext (getElementById doc ''activityChart'') of
         Inl e \<Rightarrow> (Throw e, w0)
       | Inr ctx \<Rightarrow>
           (case activityConfig d of
              Inl e \<Rightarrow> (Throw e, w0)
            | Inr cfg \<Rightarrow> newChart Chart ctx cfg w0)))"

text \<open>The configuration literal of \<^verbatim>\<open>updateResponseChart\<close>: no dataset label, no options.\<close>

definition responseConfig :: "jsval \<Rightarrow> js_error + chart_config" where
  "responseConfig d =
     (case getProp d ''text_response_count'' of Inl e \<Rightarrow> Inl e | Inr t \<Rightarrow>
     (case getProp d ''image_response_count'' of Inl e \<Rightarrow> Inl e | Inr i \<Rightarrow>
        Inr \<lparr> cfg_type = ''pie'',
              cfg_data = \<lparr>
                cd_labels = [''Text Responses'', ''Image Responses''],
                cd_datasets = [\<lparr>
                  ds_label = None,
                  ds_data = [t, i],
                  ds_backgroundColor = [
                    ''rgba(255, 99, 132, 0.2)'',
                    ''rgba(255, 206, 86, 0.2)''],
                  ds_borderColor = [
                    ''rgba(255, 99, 132, 1)'',
                    ''rgba(255, 206, 86, 1)''],
                  ds_borderWidth = 1 \<rparr>] \<rparr>,
              cfg_options = None \<rparr>))"

definition updateResponseChart :: "'w chart_lib \<Rightarrow> document \<Rightarrow> jsval \<Rightarrow> 'w world \<Rightarrow> completion \<times> 'w world" where
  "updateResponseChart Chart doc d w =
     (let w0 = emit (UpdateResponseChartCall d) w in
      (case getContext (getElementById doc ''responseChart'') of
         Inl e \<Rightarrow> (Throw e, w0)
       | Inr ctx \<Rightarrow>
           (case responseConfig d of
              Inl e \<Rightarrow> (Throw e, w0)
            | Inr cfg \<Rightarrow> newChart Chart ctx cfg w0)))"

section \<open>The page-load handler\<close>

text \<open>
  A settled promise, and \<^verbatim>\<open>.then(f)\<close> with one argument: a fulfilled value goes to \<open>f\<close>, a
  rejection passes by \<open>f\<close> untouched. The script attaches no rejection handler anywhere.
\<close>

datatype 'a promise = Fulfilled 'a | Rejected js_error

definition then_p :: "('s \<Rightarrow> 'a promise \<times> 's) \<Rightarrow> ('a \<Rightarrow> 's \<Rightarrow> 'b promise \<times> 's) \<Rightarrow> 's \<Rightarrow> 'b promise \<times> 's" where
  "then_p p onFulfilled w =
     (case p w of
        (Fulfilled v, w1) \<Rightarrow> onFulfilled v w1
      | (Rejected e, w1) \<Rightarrow> (Rejected e, w1))"

text \<open>Two statements in a row: the second runs only when the first completes normally.\<close>

definition seq :: "('s \<Rightarrow> completion \<times> 's) \<Rightarrow> ('s \<Rightarrow> completion \<times> 's) \<Rightarrow> 's \<Rightarrow> completion \<times> 's" where
  "seq f g w =
     (case f w of
        (Normal, w1) \<Rightarrow> g w1
      | (Throw e, w1) \<Rightarrow> (Throw e, w1))"

text \<open>
  A callback of \<^verbatim>\<open>.then\<close> that returns nothing fulfils the next promise with
  \<^verbatim>\<open>undefined\<close>; one that throws rejects it.
\<close>

definition settle :: "completion \<times> 's \<Rightarrow> jsval promise \<times> 's" where
  "settle r = (case r of (Normal, w) \<Rightarrow> (Fulfilled JUndefined, w) | (Throw e, w) \<Rightarrow> (Rejected e, w))"

text \<open>
  The response of \<^verbatim>\<open>fetch\<close>: all the script uses of it is \<^verbatim>\<open>response.json()\<close>, a promise
  of the parsed body that rejects when the body is not JSON.
\<close>

datatype response = Response (json: "jsval promise")

type_synonym fetch_fn = "string \<Rightarrow> response promise"

definition fetchCall :: "fetch_fn \<Rightarrow> string \<Rightarrow> 'w world \<Rightarrow> response promise \<times> 'w world" where
  "fetchCall fetch url w = (fetch url, emit (FetchCall url) w)"

text \<open>The body of the arrow function of lines 5--8.\<close>

definition renderCharts :: "'w chart_lib \<Rightarrow> document \<Rightarrow> jsval \<Rightarrow> 'w world \<Rightarrow> completion \<times> 'w world" where
  "renderCharts Chart doc d = seq (updateActivityChart Chart doc d) (updateResponseChart Chart doc d)"

text \<open>
  The listener of \<^verbatim>\<open>DOMContentLoaded\<close>, run to the end of its promise chain. The result is
  the last promise of the chain, which nothing in the script looks at.
\<close>

definition onDOMContentLoaded :: "'w chart_lib \<Rightarrow> document \<Rightarrow> fetch_fn \<Rightarrow> 'w world \<Rightarrow> jsval promise \<times> 'w world" where
  "onDOMContentLoaded Chart doc fetch =
     then_p (then_p (fetchCall fetch ''/api/stats'')
                    (\<lambda>response w. (json response, emit ResponseJsonCall w)))
            (\<lambda>d w. settle (renderCharts Chart doc d w))"

section \<open>The payload\<close>

text \<open>
  Modelled from the spec: the StatisticsSnapshot of section 3, five non-negative integer
  counts. The server that produces it is not among the sources; \<open>payload\<close> is the JSON
  object the script receives for a snapshot.
\<close>

record StatisticsSnapshot =
  post_count :: nat
  reply_count :: nat
  mention_count :: nat
  text_response_count :: nat
  image_response_count :: nat

definition payload :: "StatisticsSnapshot \<Rightarrow> jsval" where
  "payload s = JObj [
     (''post_count'', JNum (real (post_count s))),
     (''reply_count'', JNum (real (reply_count s))),
     (''mention_count'', JNum (real (mention_count s))),
     (''text_response_count'', JNum (real (text_response_count s))),
     (''image_response_count'', JNum (real (image_response_count s)))]"

text \<open>The constructor invocations in a trace, and every other call the script makes.\<close>

fun chartCalls :: "event list \<Rightarrow> (ctx2d \<times> chart_config) list" where
  "chartCalls [] = []"
| "chartCalls (NewChart ctx cfg # evs) = (ctx, cfg) # chartCalls evs"
| "chartCalls (ev # evs) = chartCalls evs"

fun isScriptCall :: "event \<Rightarrow> bool" where
  "isScriptCall (NewChart ctx cfg) = False"
| "isScriptCall ev = True"

text \<open>The world in which the second callback of the chain starts: fetched and parsed.\<close>

definition worldAfterParse :: "'w world \<Rightarrow> 'w world" where
  "worldAfterParse w = emit ResponseJsonCall (emit (FetchCall ''/api/stats'') w)"

section \<open>The snapshot as a shared object\<close>






section \<open>Concrete pages, libraries and payloads\<close>

text \<open>
  A page with both surfaces, a page that lacks the activity surface, a library whose
  constructor always returns, an endpoint that answers with a given JSON value, and three
  payloads: the snapshot of the spec's examples, the all-zero snapshot, and an object with
  a negative, a non-numeric, a null and two absent fields.
\<close>

definition dashboardPage :: document where
  "dashboardPage = (\<lambda>i. if i = ''activityChart'' then Some (Canvas (Some 0))
                        else if i = ''responseChart'' then Some (Canvas (Some 1))
                        else None)"

definition pageWithoutActivitySurface :: document where
  "pageWithoutActivitySurface = (\<lambda>i. if i = ''responseChart'' then Some (Canvas (Some 1)) else None)"

definition quietChart :: "unit chart_lib" where
  "quietChart ctx cfg l = (Normal, l)"

definition startWorld :: "unit world" where
  "startWorld = \<lparr>trace = [], lib = ()\<rparr>"

definition fetchReturning :: "jsval \<Rightarrow> fetch_fn" where
  "fetchReturning d url = Fulfilled (Response (Fulfilled d))"

definition sampleSnapshot :: StatisticsSnapshot where
  "sampleSnapshot = \<lparr>post_count = 5, reply_count = 3, mention_count = 1,
                     text_response_count = 7, image_response_count = 2\<rparr>"

definition zeroSnapshot :: StatisticsSnapshot where
  "zeroSnapshot = \<lparr>post_count = 0, reply_count = 0, mention_count = 0,
                   text_response_count = 0, image_response_count = 0\<rparr>"




section \<open>How the model computes\<close>

lemma trace_emit: "trace (emit ev w) = trace w @ [ev]"
  by (simp add: emit_def)

lemma lib_emit: "lib (emit ev w) = lib w"
  by (simp add: emit_def)

lemma chartCalls_append: "chartCalls (xs @ ys) = chartCalls xs @ chartCalls ys"
  by (induction xs rule: chartCalls.induct) simp_all

lemma activityConfig_payload:
  "activityConfig (payload s) =
     Inr \<lparr> cfg_type = ''bar'',
           cfg_data = \<lparr>
             cd_labels = [''Posts'', ''Replies'', ''Mentions''],
             cd_datasets = [\<lparr>
               ds_label = Some ''Count'',
               ds_data = [JNum (real (post_count s)), JNum (real (reply_count s)),
                          JNum (real (mention_count s))],
               ds_backgroundColor = [
                 ''rgba(75, 192, 192, 0.2)'',
                 ''rgba(54, 162, 235, 0.2)'',
                 ''rgba(153, 102, 255, 0.2)''],
               ds_borderColor = [
                 ''rgba(75, 192, 192, 1)'',
                 ''rgba(54, 162, 235, 1)'',
                 ''rgba(153, 102, 255, 1)''],
               ds_borderWidth = 1 \<rparr>] \<rparr>,
           cfg_options = Some \<lparr> opt_scales = \<lparr> sc_y = \<lparr> ax_beginAtZero = True \<rparr> \<rparr> \<rparr> \<rparr>"
  by (simp add: activityConfig_def payload_def)



text \<open>What one call of a render function appends to the trace.\<close>

lemma updateActivityChart_trace:
  "trace (snd (updateActivityChart Chart doc d w)) =
     trace w @ UpdateActivityChartCall d #
       (case getContext (getElementById doc ''activityChart'') of
          Inl e \<Rightarrow> []
        | Inr ctx \<Rightarrow> (case activityConfig d of Inl e \<Rightarrow> [] | Inr cfg \<Rightarrow> [NewChart ctx cfg]))"
  by (simp add: updateActivityChart_def newChart_def emit_def Let_def split: sum.splits prod.splits)

lemma updateResponseChart_trace:
  "trace (snd (updateResponseChart Chart doc d w)) =
     trace w @ UpdateResponseChartCall d #
       (case getContext (getElementById doc ''responseChart'') of
          Inl e \<Rightarrow> []
        | Inr ctx \<Rightarrow> (case responseConfig d of Inl e \<Rightarrow> [] | Inr cfg \<Rightarrow> [NewChart ctx cfg]))"
  by (simp add: updateResponseChart_def newChart_def emit_def Let_def split: sum.splits prod.splits)

lemma updateActivityChart_scriptCalls:
  "filter isScriptCall (trace (snd (updateActivityChart Chart doc d w))) =
     filter isScriptCall (trace w) @ [UpdateActivityChartCall d]"
  by (simp add: updateActivityChart_trace split: sum.splits)

lemma updateResponseChart_scriptCalls:
  "filter isScriptCall (trace (snd (updateResponseChart Chart doc d w))) =
     filter isScriptCall (trace w) @ [UpdateResponseChartCall d]"
  by (simp add: updateResponseChart_trace split: sum.splits)

lemma updateActivityChart_chartCalls:
  "chartCalls (trace (snd (updateActivityChart Chart doc d w))) =
     chartCalls (trace w) @
       (case getContext (getElementById doc ''activityChart'') of
          Inl e \<Rightarrow> []
        | Inr ctx \<Rightarrow> (case activityConfig d of Inl e \<Rightarrow> [] | Inr cfg \<Rightarrow> [(ctx, cfg)]))"
  by (simp add: updateActivityChart_trace chartCalls_append split: sum.splits)

lemma updateResponseChart_chartCalls:
  "chartCalls (trace (snd (updateResponseChart Chart doc d w))) =
     chartCalls (trace w) @
       (case getContext (getElementById doc ''responseChart'') of
          Inl e \<Rightarrow> []
        | Inr ctx \<Rightarrow> (case responseConfig d of Inl e \<Rightarrow> [] | Inr cfg \<Rightarrow> [(ctx, cfg)]))"
  by (simp add: updateResponseChart_trace chartCalls_append split: sum.splits)

text \<open>With its surface and its configuration at hand, a render ends as the constructor does.\<close>

lemma updateActivityChart_fst:
  assumes "getContext (getElementById doc ''activityChart'') = Inr ctx"
      and "activityConfig d = Inr cfg"
  shows "fst (updateActivityChart Chart doc d w) = fst (Chart ctx cfg (lib w))"
  using assms
  by (simp add: updateActivityChart_def newChart_def lib_emit Let_def split: prod.splits)

text \<open>The chain after a successful fetch and parse, and the callback's two statements.\<close>

lemma onDOMContentLoaded_fulfilled:
  assumes "fetch ''/api/stats'' = Fulfilled r" and "json r = Fulfilled d"
  shows "onDOMContentLoaded Chart doc fetch w =
           settle (renderCharts Chart doc d (worldAfterParse w))"
  using assms by (simp add: onDOMContentLoaded_def then_p_def fetchCall_def worldAfterParse_def)

lemma renderCharts_Normal:
  assumes "fst (updateActivityChart Chart doc d w) = Normal"
  shows "renderCharts Chart doc d w =
           updateResponseChart Chart doc d (snd (updateActivityChart Chart doc d w))"
  using assms by (cases "updateActivityChart Chart doc d w") (simp add: renderCharts_def seq_def)

lemma renderCharts_Throw:
  assumes "fst (updateActivityChart Chart doc d w) = Throw e"
  shows "renderCharts Chart doc d w = (Throw e, snd (updateActivityChart Chart doc d w))"
  using assms by (cases "updateActivityChart Chart doc d w") (simp add: renderCharts_def seq_def)

lemma snd_settle: "snd (settle r) = snd r"
  by (cases r) (simp add: settle_def split: completion.splits)

lemma trace_worldAfterParse:
  "trace (worldAfterParse w) = trace w @ [FetchCall ''/api/stats'', ResponseJsonCall]"
  by (simp add: worldAfterParse_def trace_emit)


text \<open>The concrete pages and endpoint.\<close>

lemma dashboardPage_activity:
  "getContext (getElementById dashboardPage ''activityChart'') = Inr (Some 0)"
  by (simp add: getElementById_def dashboardPage_def)


lemma fetchReturning_stats:
  "fetchReturning d ''/api/stats'' = Fulfilled (Response (Fulfilled d))"
  by (simp add: fetchReturning_def)

lemma json_Response: "json (Response (Fulfilled d)) = Fulfilled d"
  by simp








section \<open>The arguments of the two charts\<close>





section \<open>The promise chain\<close>

text \<open>
  Claim C3. If the fetch of \<^verbatim>\<open>/api/stats\<close> rejects, or the body fails to parse as JSON,
  then neither render function is called and no chart is constructed: the trace gains the
  fetch (and, when the fetch went through, the call of \<^verbatim>\<open>response.json()\<close>) and nothing
  else, the library's state is untouched, and the chain ends rejected with the very error
  it started with, which no handler has seen.
\<close>

theorem fetch_failure_renders_nothing:
  assumes "fetch ''/api/stats'' = Rejected e
           \<or> (\<exists>r. fetch ''/api/stats'' = Fulfilled r \<and> json r = Rejected e)"
  shows "fst (onDOMContentLoaded Chart doc fetch w) = Rejected e
         \<and> lib (snd (onDOMContentLoaded Chart doc fetch w)) = lib w
         \<and> trace (snd (onDOMContentLoaded Chart doc fetch w)) =
             trace w @ (case fetch ''/api/stats'' of
                          Rejected x \<Rightarrow> [FetchCall ''/api/stats'']
                        | Fulfilled r \<Rightarrow> [FetchCall ''/api/stats'', ResponseJsonCall])"
  using assms
  by (auto simp add: onDOMContentLoaded_def then_p_def fetchCall_def trace_emit lib_emit)

theorem fetch_failure_renders_nothing_witness:
  "onDOMContentLoaded quietChart dashboardPage
        (\<lambda>url. Rejected (TypeError ''Failed to fetch'')) startWorld
     = (Rejected (TypeError ''Failed to fetch''), \<lparr>trace = [FetchCall ''/api/stats''], lib = ()\<rparr>)
   \<and> onDOMContentLoaded quietChart dashboardPage
        (\<lambda>url. Fulfilled (Response (Rejected (SyntaxError ''Unexpected token'')))) startWorld
     = (Rejected (SyntaxError ''Unexpected token''),
        \<lparr>trace = [FetchCall ''/api/stats'', ResponseJsonCall], lib = ()\<rparr>)"
  using fetch_failure_renders_nothing
          [of "\<lambda>url. Rejected (TypeError ''Failed to fetch'')" "TypeError ''Failed to fetch''"
              quietChart dashboardPage startWorld]
        fetch_failure_renders_nothing
          [of "\<lambda>url. Fulfilled (Response (Rejected (SyntaxError ''Unexpected token'')))"
              "SyntaxError ''Unexpected token''" quietChart dashboardPage startWorld]
  by (simp add: startWorld_def prod_eq_iff)

text \<open>
  Claim C4 says that after a successful fetch and parse \<^verbatim>\<open>updateActivityChart\<close> is called
  once and then \<^verbatim>\<open>updateResponseChart\<close> is called once. On a page without the surface
  \<^verbatim>\<open>activityChart\<close> the endpoint answers with the snapshot 5, 3, 1, 7, 2, the body parses,
  the first render throws at the element lookup, and \<^verbatim>\<open>updateResponseChart\<close> is not
  called at all.
\<close>

theorem render_sequence_counterexample:
  "fetchReturning (payload sampleSnapshot) ''/api/stats'' =
     Fulfilled (Response (Fulfilled (payload sampleSnapshot)))
   \<and> trace (snd (onDOMContentLoaded quietChart pageWithoutActivitySurface
                   (fetchReturning (payload sampleSnapshot)) startWorld))
       = [FetchCall ''/api/stats'', ResponseJsonCall, UpdateActivityChartCall (payload sampleSnapshot)]
   \<and> UpdateResponseChartCall (payload sampleSnapshot)
       \<notin> set (trace (snd (onDOMContentLoaded quietChart pageWithoutActivitySurface
                            (fetchReturning (payload sampleSnapshot)) startWorld)))"
  by (simp add: onDOMContentLoaded_def then_p_def fetchCall_def fetchReturning_def settle_def
        renderCharts_def seq_def updateActivityChart_def getElementById_def
        pageWithoutActivitySurface_def emit_def startWorld_def)

text \<open>
  Claim C4, amended. After a successful fetch and parse of one page load the script's
  calls are, in this order and each once: the fetch, the parse, \<^verbatim>\<open>updateActivityChart\<close>
  on the parsed value and, when that call returned normally, \<^verbatim>\<open>updateResponseChart\<close>
  on the same value; when the first render threw, the second is not called. Nothing is
  repeated or retried.
\<close>

theorem render_sequence:
  assumes "fetch ''/api/stats'' = Fulfilled r" and "json r = Fulfilled d"
  shows "filter isScriptCall (trace (snd (onDOMContentLoaded Chart doc fetch w))) =
           filter isScriptCall (trace w) @
           (if fst (updateActivityChart Chart doc d (worldAfterParse w)) = Normal
            then [FetchCall ''/api/stats'', ResponseJsonCall,
                  UpdateActivityChartCall d, UpdateResponseChartCall d]
            else [FetchCall ''/api/stats'', ResponseJsonCall, UpdateActivityChartCall d])"
proof (cases "fst (updateActivityChart Chart doc d (worldAfterParse w))")
  case Normal
  then show ?thesis
    by (simp add: onDOMContentLoaded_fulfilled [where fetch = fetch and r = r and d = d, OF assms]
          snd_settle renderCharts_Normal updateResponseChart_scriptCalls
          updateActivityChart_scriptCalls trace_worldAfterParse)
next
  case (Throw e)
  then show ?thesis
    by (simp add: onDOMContentLoaded_fulfilled [where fetch = fetch and r = r and d = d, OF assms]
          snd_settle renderCharts_Throw updateActivityChart_scriptCalls trace_worldAfterParse)
qed

theorem render_sequence_witness:
  "fetchReturning (payload sampleSnapshot) ''/api/stats'' =
     Fulfilled (Response (Fulfilled (payload sampleSnapshot)))
   \<and> json (Response (Fulfilled (payload sampleSnapshot))) = Fulfilled (payload sampleSnapshot)
   \<and> filter isScriptCall (trace (snd (onDOMContentLoaded quietChart dashboardPage
                                        (fetchReturning (payload sampleSnapshot)) startWorld)))
       = [FetchCall ''/api/stats'', ResponseJsonCall,
          UpdateActivityChartCall (payload sampleSnapshot),
          UpdateResponseChartCall (payload sampleSnapshot)]"
proof -
  have n: "fst (updateActivityChart quietChart dashboardPage (payload sampleSnapshot)
                  (worldAfterParse startWorld)) = Normal"
    by (simp add: updateActivityChart_fst [OF dashboardPage_activity activityConfig_payload]
          quietChart_def)
  show ?thesis
    using fetchReturning_stats [of "payload sampleSnapshot"] n
      render_sequence [where fetch = "fetchReturning (payload sampleSnapshot)"
          and r = "Response (Fulfilled (payload sampleSnapshot))" and d = "payload sampleSnapshot"
          and Chart = quietChart and doc = dashboardPage and w = startWorld,
          OF fetchReturning_stats json_Response]
    by (simp add: startWorld_def)
qed

section \<open>Rendering again, the empty snapshot, the fixed styling\<close>





text \<open>
  Claim C7. For every StatisticsSnapshot the activity chart is constructed with the
  option \<^verbatim>\<open>scales.y.beginAtZero\<close> set to true, and its dataset carries one background and
  one border colour for each of the three categories, the same literal colours for every
  snapshot, no two of them equal within either list.
\<close>

theorem activity_chart_axis_and_palette:
  assumes "getContext (getElementById doc ''activityChart'') = Inr ctx"
  shows "\<exists>cfg ds. trace (snd (updateActivityChart Chart doc (payload s) w)) =
                    trace w @ [UpdateActivityChartCall (payload s), NewChart ctx cfg]
         \<and> cfg_options cfg = Some \<lparr> opt_scales = \<lparr> sc_y = \<lparr> ax_beginAtZero = True \<rparr> \<rparr> \<rparr>
         \<and> cd_datasets (cfg_data cfg) = [ds]
         \<and> ds_backgroundColor ds =
              [''rgba(75, 192, 192, 0.2)'', ''rgba(54, 162, 235, 0.2)'', ''rgba(153, 102, 255, 0.2)'']
         \<and> ds_borderColor ds =
              [''rgba(75, 192, 192, 1)'', ''rgba(54, 162, 235, 1)'', ''rgba(153, 102, 255, 1)'']
         \<and> distinct (ds_backgroundColor ds) \<and> distinct (ds_borderColor ds)
         \<and> length (ds_backgroundColor ds) = length (cd_labels (cfg_data cfg))
         \<and> length (ds_borderColor ds) = length (cd_labels (cfg_data cfg))"
  using assms by (simp add: updateActivityChart_trace activityConfig_payload)

theorem activity_chart_axis_and_palette_witness:
  "getContext (getElementById dashboardPage ''activityChart'') = Inr (Some 0) \<and>
   (\<exists>cfg ds. trace (snd (updateActivityChart quietChart dashboardPage (payload zeroSnapshot) startWorld)) =
                    [UpdateActivityChartCall (payload zeroSnapshot), NewChart (Some 0) cfg]
         \<and> cfg_options cfg = Some \<lparr> opt_scales = \<lparr> sc_y = \<lparr> ax_beginAtZero = True \<rparr> \<rparr> \<rparr>
         \<and> cd_datasets (cfg_data cfg) = [ds]
         \<and> ds_backgroundColor ds =
              [''rgba(75, 192, 192, 0.2)'', ''rgba(54, 162, 235, 0.2)'', ''rgba(153, 102, 255, 0.2)'']
         \<and> ds_borderColor ds =
              [''rgba(75, 192, 192, 1)'', ''rgba(54, 162, 235, 1)'', ''rgba(153, 102, 255, 1)'']
         \<and> distinct (ds_backgroundColor ds) \<and> distinct (ds_borderColor ds)
         \<and> length (ds_backgroundColor ds) = length (cd_labels (cfg_data cfg))
         \<and> length (ds_borderColor ds) = length (cd_labels (cfg_data cfg)))"
  using dashboardPage_activity
    activity_chart_axis_and_palette [OF dashboardPage_activity, of quietChart zeroSnapshot startWorld]
  by (simp add: startWorld_def)

section \<open>What reaches the constructors, and what does not\<close>




text \<open>
  Claim C9. The two charts do not interfere. Two payloads that agree on
  \<^verbatim>\<open>text_response_count\<close> and \<^verbatim>\<open>image_response_count\<close> make \<^verbatim>\<open>updateResponseChart\<close> pass
  the same arguments to the constructor, whatever their other fields are; two payloads
  that agree on \<^verbatim>\<open>post_count\<close>, \<^verbatim>\<open>reply_count\<close> and \<^verbatim>\<open>mention_count\<close> make
  \<^verbatim>\<open>updateActivityChart\<close> pass the same arguments. The instance after it changes the
  three activity counts of a snapshot, then its two response counts.
\<close>

theorem charts_do_not_interfere:
  "(getProp d1 ''text_response_count'' = getProp d2 ''text_response_count''
      \<and> getProp d1 ''image_response_count'' = getProp d2 ''image_response_count''
    \<longrightarrow> chartCalls (trace (snd (updateResponseChart Chart doc d1 w))) =
        chartCalls (trace (snd (updateResponseChart Chart doc d2 w))))
   \<and> (getProp d1 ''post_count'' = getProp d2 ''post_count''
      \<and> getProp d1 ''reply_count'' = getProp d2 ''reply_count''
      \<and> getProp d1 ''mention_count'' = getProp d2 ''mention_count''
    \<longrightarrow> chartCalls (trace (snd (updateActivityChart Chart doc d1 w))) =
        chartCalls (trace (snd (updateActivityChart Chart doc d2 w))))"
  by (simp add: updateActivityChart_chartCalls updateResponseChart_chartCalls
        activityConfig_def responseConfig_def split: sum.splits)

theorem charts_do_not_interfere_witness:
  "payload (sampleSnapshot\<lparr>post_count := 40, reply_count := 41, mention_count := 42\<rparr>)
     \<noteq> payload sampleSnapshot
   \<and> chartCalls (trace (snd (updateResponseChart quietChart dashboardPage
       (payload (sampleSnapshot\<lparr>post_count := 40, reply_count := 41, mention_count := 42\<rparr>))
       startWorld))) =
     chartCalls (trace (snd (updateResponseChart quietChart dashboardPage
       (payload sampleSnapshot) startWorld)))
   \<and> payload (sampleSnapshot\<lparr>text_response_count := 50, image_response_count := 51\<rparr>)
     \<noteq> payload sampleSnapshot
   \<and> chartCalls (trace (snd (updateActivityChart quietChart dashboardPage
       (payload (sampleSnapshot\<lparr>text_response_count := 50, image_response_count := 51\<rparr>))
       startWorld))) =
     chartCalls (trace (snd (updateActivityChart quietChart dashboardPage
       (payload sampleSnapshot) startWorld)))"
  using charts_do_not_interfere
          [of "payload (sampleSnapshot\<lparr>post_count := 40, reply_count := 41, mention_count := 42\<rparr>)"
              "payload sampleSnapshot" quietChart dashboardPage startWorld]
        charts_do_not_interfere
          [of "payload (sampleSnapshot\<lparr>text_response_count := 50, image_response_count := 51\<rparr>)"
              "payload sampleSnapshot" quietChart dashboardPage startWorld]
  by (simp add: payload_def sampleSnapshot_def)

text \<open>
  Claim C10. If \<^verbatim>\<open>updateActivityChart\<close> throws, for whatever reason, then
  \<^verbatim>\<open>updateResponseChart\<close> is never called: the page load ends in the world the first
  render left, the chain is rejected with the error thrown, and the script's calls are the
  fetch, the parse and the one call of \<^verbatim>\<open>updateActivityChart\<close>. The instance after it is
  a page without the surface \<^verbatim>\<open>activityChart\<close> whose surface \<^verbatim>\<open>responseChart\<close> exists.
\<close>

theorem activity_failure_blocks_response:
  assumes "fetch ''/api/stats'' = Fulfilled r" and "json r = Fulfilled d"
      and "fst (updateActivityChart Chart doc d (worldAfterParse w)) = Throw e"
  shows "onDOMContentLoaded Chart doc fetch w =
           (Rejected e, snd (updateActivityChart Chart doc d (worldAfterParse w)))
         \<and> filter isScriptCall (trace (snd (onDOMContentLoaded Chart doc fetch w))) =
             filter isScriptCall (trace w) @
               [FetchCall ''/api/stats'', ResponseJsonCall, UpdateActivityChartCall d]"
  using assms(3)
  by (simp add: onDOMContentLoaded_fulfilled [where fetch = fetch and r = r and d = d, OF assms(1,2)]
        renderCharts_Throw settle_def updateActivityChart_scriptCalls trace_worldAfterParse)

theorem activity_failure_blocks_response_witness:
  "fetchReturning (payload sampleSnapshot) ''/api/stats'' =
     Fulfilled (Response (Fulfilled (payload sampleSnapshot)))
   \<and> json (Response (Fulfilled (payload sampleSnapshot))) = Fulfilled (payload sampleSnapshot)
   \<and> getContext (getElementById pageWithoutActivitySurface ''responseChart'') = Inr (Some 1)
   \<and> fst (updateActivityChart quietChart pageWithoutActivitySurface (payload sampleSnapshot)
            (worldAfterParse startWorld))
       = Throw (TypeError ''Cannot read properties of null (reading getContext)'')
   \<and> fst (onDOMContentLoaded quietChart pageWithoutActivitySurface
            (fetchReturning (payload sampleSnapshot)) startWorld)
       = Rejected (TypeError ''Cannot read properties of null (reading getContext)'')
   \<and> filter isScriptCall (trace (snd (onDOMContentLoaded quietChart pageWithoutActivitySurface
                                        (fetchReturning (payload sampleSnapshot)) startWorld)))
       = [FetchCall ''/api/stats'', ResponseJsonCall, UpdateActivityChartCall (payload sampleSnapshot)]"
proof -
  have s: "getContext (getElementById pageWithoutActivitySurface ''responseChart'') = Inr (Some 1)"
    by (simp add: getElementById_def pageWithoutActivitySurface_def)
  have t: "fst (updateActivityChart quietChart pageWithoutActivitySurface (payload sampleSnapshot)
                  (worldAfterParse startWorld))
             = Throw (TypeError ''Cannot read properties of null (reading getContext)'')"
    by (simp add: updateActivityChart_def getElementById_def pageWithoutActivitySurface_def)
  show ?thesis
    using fetchReturning_stats [of "payload sampleSnapshot"] s t
      activity_failure_blocks_response [where fetch = "fetchReturning (payload sampleSnapshot)"
          and r = "Response (Fulfilled (payload sampleSnapshot))" and d = "payload sampleSnapshot"
          and Chart = quietChart and doc = pageWithoutActivitySurface and w = startWorld,
          OF fetchReturning_stats json_Response t]
    by (simp add: startWorld_def updateActivityChart_scriptCalls trace_worldAfterParse)
qed

end
